theory Spec2Isabelle
  imports Complex_Main "HOL-Library.Sublist"
begin

section \<open>Constants of \<^verbatim>\<open>src/app/page.tsx\<close>\<close>

definition TEXTURE_SIZE :: nat where
  "TEXTURE_SIZE = 4096"

definition MAX_WORDS :: nat where
  "MAX_WORDS = 100000"

section \<open>Single precision\<close>

text \<open>
  A \<^verbatim>\<open>Float32Array\<close> keeps every number it is given in single precision: 24
  significant bits, rounded to the nearest such number, a tie to the one with an even
  last bit. \<open>spacing x\<close> is the distance between neighbouring single-precision numbers
  at the size of \<open>x\<close>: \<open>1 / 2 ^ 24\<close> from one half up to 1, half of that in each binade
  below, down to \<open>1 / 2 ^ 149\<close> for the smallest numbers, and twice as much in each
  binade above.
  The page stores numbers between 0 and 1; a number beyond the largest single-precision
  number (it would be stored as \<^verbatim>\<open>Infinity\<close>) is outside this model.
\<close>

definition round_half_even :: "real \<Rightarrow> int" where
  "round_half_even y =
     (let f = \<lfloor>y\<rfloor>; d = y - of_int f in
      if d < 1 / 2 then f else if 1 / 2 < d then f + 1 else if even f then f else f + 1)"

fun spacing_below :: "nat \<Rightarrow> real \<Rightarrow> real" where
  "spacing_below 0 x = 1 / 2 ^ 24"
| "spacing_below (Suc n) x = (if 1 / 2 \<le> x then 1 / 2 ^ 24 else spacing_below n (2 * x) / 2)"

fun spacing_above :: "nat \<Rightarrow> real \<Rightarrow> real" where
  "spacing_above 0 x = 1 / 2 ^ 23"
| "spacing_above (Suc n) x = (if x < 2 then 1 / 2 ^ 23 else 2 * spacing_above n (x / 2))"

definition spacing :: "real \<Rightarrow> real" where
  "spacing x = (if \<bar>x\<bar> < 1 then spacing_below 125 \<bar>x\<bar> else spacing_above 127 \<bar>x\<bar>)"

definition fround :: "real \<Rightarrow> real" where
  "fround x = of_int (round_half_even (x / spacing x)) * spacing x"

section \<open>Typed arrays and textures\<close>

text \<open>
  A \<^verbatim>\<open>Float32Array\<close> is a list of fixed length: \<^verbatim>\<open>new Float32Array(n)\<close> holds \<open>n\<close>
  zeros, a write \<^verbatim>\<open>a[i] = v\<close> stores \<open>fround v\<close>, and a write at an index outside the
  array is ignored, which is what \<open>a[i := fround v]\<close> does.

  A texture is its declared size together with its RGBA data in row-major order, four
  numbers per cell: channel \<open>c\<close> of the cell in column \<open>x\<close> of row \<open>y\<close> is
  \<open>pixels t ! ((y * tex_width t + x) * 4 + c)\<close>.
\<close>

definition Float32Array :: "nat \<Rightarrow> real list" where
  "Float32Array n = replicate n 0"

record texture =
  tex_width :: nat
  tex_height :: nat
  pixels :: "real list"

datatype gl_error = INVALID_ENUM | INVALID_VALUE | INVALID_OPERATION

text \<open>\<^verbatim>\<open>createAndSetupTexture\<close>: a texture object that has no image yet.\<close>

definition createAndSetupTexture :: texture where
  "createAndSetupTexture = \<lparr>tex_width = 0, tex_height = 0, pixels = []\<rparr>"

text \<open>
  \<^verbatim>\<open>gl.texImage2D(TEXTURE_2D, 0, RGBA, width, height, 0, RGBA, FLOAT, data)\<close> defines the
  whole image. A context accepts the type \<^verbatim>\<open>FLOAT\<close> or refuses it with \<open>INVALID_ENUM\<close>
  (WebGL 1 accepts it once the extension for floating-point textures is enabled; the page
  does not ask for it); this is the first argument. A data array that is too short is
  refused as well.
\<close>

definition texImage2D :: "bool \<Rightarrow> nat \<Rightarrow> nat \<Rightarrow> real list \<Rightarrow> gl_error + texture" where
  "texImage2D float_ok width height data =
     (if \<not> float_ok then Inl INVALID_ENUM
      else if length data < width * height * 4 then Inl INVALID_OPERATION
      else Inr \<lparr>tex_width = width, tex_height = height,
                pixels = take (width * height * 4) data\<rparr>)"

text \<open>
  \<^verbatim>\<open>gl.texSubImage2D(TEXTURE_2D, 0, xoffset, yoffset, width, height, RGBA, FLOAT, data)\<close>
  replaces the rectangle of \<open>width \<times> height\<close> cells whose corner is
  \<open>(xoffset, yoffset)\<close>. A texture whose image no \<^verbatim>\<open>texImage2D\<close> has defined refuses the
  call with \<open>INVALID_OPERATION\<close>; the page defines no empty image, so this is the
  texture of size \<open>0 \<times> 0\<close>. A rectangle that does not lie inside the image is refused
  with \<open>INVALID_VALUE\<close>. A refused call leaves the texture as it was.
\<close>

definition texSubImage2D ::
  "texture \<Rightarrow> nat \<Rightarrow> nat \<Rightarrow> nat \<Rightarrow> nat \<Rightarrow> real list \<Rightarrow> gl_error + texture" where
  "texSubImage2D t xoffset yoffset width height data =
     (if tex_width t = 0 \<and> tex_height t = 0 then Inl INVALID_OPERATION
      else if tex_width t < xoffset + width \<or> tex_height t < yoffset + height
      then Inl INVALID_VALUE
      else if length data < width * height * 4 then Inl INVALID_OPERATION
      else Inr (t\<lparr>pixels :=
        map (\<lambda>k. let x = (k div 4) mod tex_width t; y = (k div 4) div tex_width t in
               if xoffset \<le> x \<and> x < xoffset + width \<and> yoffset \<le> y \<and> y < yoffset + height
               then data ! (((y - yoffset) * width + (x - xoffset)) * 4 + k mod 4)
               else pixels t ! k)
          [0..<length (pixels t)]\<rparr>))"

text \<open>
  The texture after a call of the context: the new image, or the old one when the call
  was refused. The page never reads \<^verbatim>\<open>gl.getError()\<close>, so a refused call goes unnoticed.
\<close>

definition texture_after :: "gl_error + texture \<Rightarrow> texture \<Rightarrow> texture" where
  "texture_after r t = (case r of Inl e \<Rightarrow> t | Inr t' \<Rightarrow> t')"

text \<open>
  The uploads that the page asks of the context, in the order of the calls, whether the
  context accepts them or not: the texture that is bound, the rectangle and the data.
\<close>

datatype texture_name = NeuronState | WordData

datatype gl_call =
    TexImage2D texture_name nat nat "real list"
  | TexSubImage2D texture_name nat nat nat nat "real list"

section \<open>The component state\<close>

text \<open>
  The \<^verbatim>\<open>useState\<close> cells and the refs of \<^verbatim>\<open>HighCapacityNeuralProcessor\<close>. \<open>glRef\<close> says
  whether \<^verbatim>\<open>glRef.current\<close> holds a context; a texture ref is \<open>None\<close> while it is
  \<^verbatim>\<open>null\<close>. \<open>glCalls\<close> lists the uploads made so far.

  A word is a string of characters with codes below 256. The tokens of a file have only
  ASCII characters; of the words that can be typed into the form, these are the ones
  whose \<^verbatim>\<open>charCodeAt(i) / 255\<close> is at most 1.
\<close>

record state =
  words :: "string list"
  newWord :: string
  outputWord :: string
  error :: "string option"
  progress :: real
  isProcessing :: bool
  glRef :: bool
  neuronStateTextureRef :: "texture option"
  wordDataTextureRef :: "texture option"
  glCalls :: "gl_call list"

definition initial_state :: state where
  "initial_state =
     \<lparr>words = [], newWord = [], outputWord = [], error = None, progress = 0,
      isProcessing = False, glRef = False, neuronStateTextureRef = None,
      wordDataTextureRef = None, glCalls = []\<rparr>"

text \<open>
  A call of \<^verbatim>\<open>Math.random()\<close> is a read of a sample stream: \<open>rnd k\<close> is the sample
  that the \<open>k\<close>-th call of one operation returns.
\<close>

type_synonym samples = "nat \<Rightarrow> real"

text \<open>What the browser answers while the mount effect runs.\<close>

record env =
  has_canvas :: bool
  has_webgl :: bool
  shaders_compile :: bool
  program_links :: bool
  float_textures :: bool

text \<open>
  The mount effect (\<^verbatim>\<open>useEffect(..., [])\<close>) up to the two texture uploads. The loops
  \<^verbatim>\<open>for (i = 0; i < data.length; i++) data[i] = Math.random()\<close> are folds over the
  indices; the neuron-state array is filled first.
\<close>

definition fill_random :: "samples \<Rightarrow> nat \<Rightarrow> real list \<Rightarrow> real list" where
  "fill_random rnd first a =
     fold (\<lambda>i a. a[i := fround (rnd (first + i))]) [0..<length a] a"

definition mount :: "env \<Rightarrow> samples \<Rightarrow> state \<Rightarrow> state" where
  "mount e rnd s =
     (if \<not> has_canvas e then s
      else if \<not> has_webgl e then s\<lparr>error := Some ''WebGL is not supported in your browser.''\<rparr>
      else let s1 = s\<lparr>glRef := True\<rparr> in
        if \<not> shaders_compile e then s1\<lparr>error := Some ''Failed to compile shaders.''\<rparr>
        else if \<not> program_links e then s1\<lparr>error := Some ''Failed to create shader program.''\<rparr>
        else
          let neuronStateData =
                fill_random rnd 0 (Float32Array (TEXTURE_SIZE * TEXTURE_SIZE * 4));
              wordData =
                fill_random rnd (TEXTURE_SIZE * TEXTURE_SIZE * 4) (Float32Array (TEXTURE_SIZE * 4))
          in s1\<lparr>neuronStateTextureRef :=
                    Some (texture_after
                            (texImage2D (float_textures e) TEXTURE_SIZE TEXTURE_SIZE neuronStateData)
                            createAndSetupTexture),
                 wordDataTextureRef :=
                    Some (texture_after (texImage2D (float_textures e) TEXTURE_SIZE 1 wordData)
                            createAndSetupTexture),
                 glCalls := glCalls s1 @
                    [TexImage2D NeuronState TEXTURE_SIZE TEXTURE_SIZE neuronStateData,
                     TexImage2D WordData TEXTURE_SIZE 1 wordData]\<rparr>)"

section \<open>The callbacks\<close>

text \<open>
  Every callback is a closure made by \<^verbatim>\<open>useCallback\<close> in one render: the \<^verbatim>\<open>words\<close> it
  reads is the array of that render, the first argument \<open>ws\<close> below. What it writes
  goes to the state: \<^verbatim>\<open>setWords(prev => [...prev, word])\<close> appends to the current
  array, whatever \<open>ws\<close> is. A callback that the page calls right after a render has
  \<open>ws = words s\<close>.
\<close>

text \<open>\<^verbatim>\<open>words.indexOf(word)\<close>: the first index, \<open>None\<close> for \<open>-1\<close>.\<close>

fun indexOf :: "'a list \<Rightarrow> 'a \<Rightarrow> nat option" where
  "indexOf [] w = None"
| "indexOf (x # xs) w = (if x = w then Some 0 else map_option Suc (indexOf xs w))"

text \<open>\<^verbatim>\<open>word.charCodeAt(i) / 255\<close> into every fourth entry of a zeroed row.\<close>

definition encode_word :: "string \<Rightarrow> real list" where
  "encode_word word =
     fold (\<lambda>i a. a[i * 4 := fround (real (of_char (word ! i)) / 255)]) [0..<length word]
       (Float32Array (TEXTURE_SIZE * 4))"

definition addWord :: "string list \<Rightarrow> string \<Rightarrow> state \<Rightarrow> state" where
  "addWord ws word s =
     (if word \<notin> set ws \<and> length ws < MAX_WORDS then
        let s1 = s\<lparr>words := words s @ [word]\<rparr> in
        (case wordDataTextureRef s1 of
           Some t \<Rightarrow>
             if glRef s1 then
               s1\<lparr>wordDataTextureRef :=
                    Some (texture_after (texSubImage2D t 0 (length ws) TEXTURE_SIZE 1
                                    (encode_word word)) t),
                  glCalls := glCalls s1 @
                    [TexSubImage2D WordData 0 (length ws) TEXTURE_SIZE 1 (encode_word word)]\<rparr>
             else s1
         | None \<Rightarrow> s1)
      else s)"

definition random_activation :: "samples \<Rightarrow> real list" where
  "random_activation rnd =
     fold (\<lambda>i a. a[i * 4 := fround (rnd i)]) [0..<TEXTURE_SIZE * TEXTURE_SIZE]
       (Float32Array (TEXTURE_SIZE * TEXTURE_SIZE * 4))"

definition processInput :: "string list \<Rightarrow> samples \<Rightarrow> string \<Rightarrow> state \<Rightarrow> state" where
  "processInput ws rnd word s =
     (case indexOf ws word of
        Some index \<Rightarrow>
          let s1 =
                (case neuronStateTextureRef s of
                   Some t \<Rightarrow>
                     if glRef s then
                       s\<lparr>neuronStateTextureRef :=
                            Some (texture_after (texSubImage2D t 0 0 TEXTURE_SIZE TEXTURE_SIZE
                                            (random_activation rnd)) t),
                         glCalls := glCalls s @
                            [TexSubImage2D NeuronState 0 0 TEXTURE_SIZE TEXTURE_SIZE
                               (random_activation rnd)]\<rparr>
                     else s
                 | None \<Rightarrow> s);
              outputIndex = (index + 1) mod length ws
          in s1\<lparr>outputWord := ws ! outputIndex\<rparr>
      | None \<Rightarrow> s\<lparr>outputWord := ''Unknown word''\<rparr>)"

definition handleAddWord :: "string list \<Rightarrow> state \<Rightarrow> state" where
  "handleAddWord ws s =
     (if newWord s \<noteq> [] \<and> newWord s \<notin> set ws
      then (addWord ws (newWord s) s)\<lparr>newWord := []\<rparr>
      else s)"

subsection \<open>Bulk ingestion\<close>

text \<open>
  The text of a file is a JavaScript string: a list of UTF-16 code units, numbers below
  65536. \<open>utf16\<close> is the text of a string of 8-bit characters.

  \<^verbatim>\<open>text.toLowerCase()\<close>: the capital letters of ASCII and of Latin-1 move up by 32, the
  Kelvin sign (U+212A) becomes \<open>k\<close>, the capital I with dot (U+0130) becomes \<open>i\<close> with a
  combining dot (U+0307). These are the units whose image has a unit below 128. The image
  of any other unit above 127 has only units above 127; the model keeps the unit in its
  place, which is the same for the tokens, as no token has a unit above 127.

  \<^verbatim>\<open>/\b\w+\b/g\<close> matches the maximal runs of word characters (letters, digits and the
  underscore of ASCII), from left to right; no match at all gives \<^verbatim>\<open>null\<close>, which
  \<^verbatim>\<open>|| []\<close> turns into the empty list. A token has only ASCII characters, so it is a
  string.
\<close>

type_synonym js_text = "nat list"

definition utf16 :: "string \<Rightarrow> js_text" where
  "utf16 s = map of_char s"

definition lower_unit :: "nat \<Rightarrow> js_text" where
  "lower_unit u =
     (if (65 \<le> u \<and> u \<le> 90) \<or> (192 \<le> u \<and> u \<le> 222 \<and> u \<noteq> 215) then [u + 32]
      else if u = 8490 then [107]
      else if u = 304 then [105, 775]
      else [u])"

definition toLowerCase :: "js_text \<Rightarrow> js_text" where
  "toLowerCase text = concat (map lower_unit text)"

definition word_unit :: "nat \<Rightarrow> bool" where
  "word_unit u = ((48 \<le> u \<and> u \<le> 57) \<or> (65 \<le> u \<and> u \<le> 90) \<or> u = 95 \<or> (97 \<le> u \<and> u \<le> 122))"

fun match_words_from :: "string \<Rightarrow> js_text \<Rightarrow> string list" where
  "match_words_from cur [] = (if cur = [] then [] else [cur])"
| "match_words_from cur (u # us) =
     (if word_unit u then match_words_from (cur @ [char_of u]) us
      else if cur = [] then match_words_from [] us
      else cur # match_words_from [] us)"

definition match_words :: "js_text \<Rightarrow> string list" where
  "match_words text = match_words_from [] text"

text \<open>
  A normalized token: a non-empty string of small letters, digits and underscores.
\<close>

definition normalized :: "string \<Rightarrow> bool" where
  "normalized tok =
     (tok \<noteq> [] \<and>
      list_all (\<lambda>c. (48 \<le> (of_char c :: nat) \<and> (of_char c :: nat) \<le> 57) \<or> (of_char c :: nat) = 95
                    \<or> (97 \<le> (of_char c :: nat) \<and> (of_char c :: nat) \<le> 122)) tok)"


text \<open>
  What the file chooser hands over: no file, a file whose \<^verbatim>\<open>text()\<close> promise rejects,
  or a file with its text.
\<close>

datatype chosen_file = NoFile | Unreadable | FileText js_text

text \<open>
  The loop of \<^verbatim>\<open>handleFileUpload\<close> calls the one \<^verbatim>\<open>addWord\<close> of its own render for
  every token, so each call runs with the same \<open>ws\<close>; \<^verbatim>\<open>words.length\<close> is the length of
  the same array. \<^verbatim>\<open>totalWords\<close> is an integer: it is negative when the registry is
  over its capacity, and the loop then does not run. \<open>upload_iteration\<close> is one pass
  through the loop body; \<open>handleFileUpload\<close> is the whole call when nothing else runs
  while it waits for its timers.
\<close>

definition upload_iteration ::
  "string list \<Rightarrow> string list \<Rightarrow> int \<Rightarrow> nat \<Rightarrow> state \<Rightarrow> state" where
  "upload_iteration ws wordsFromFile totalWords i s =
     (addWord ws (wordsFromFile ! i) s)
       \<lparr>progress := real (i + 1) / real_of_int totalWords * 100\<rparr>"

definition handleFileUpload :: "string list \<Rightarrow> chosen_file \<Rightarrow> state \<Rightarrow> state" where
  "handleFileUpload ws f s =
     (case f of
        NoFile \<Rightarrow> s
      | Unreadable \<Rightarrow>
          s\<lparr>isProcessing := False, progress := 0,
            error := Some ''Error reading file. Please try again.''\<rparr>
      | FileText text \<Rightarrow>
          let s1 = s\<lparr>isProcessing := True, progress := 0\<rparr>;
              wordsFromFile = match_words (toLowerCase text);
              totalWords = min (int (length wordsFromFile)) (int MAX_WORDS - int (length ws));
              s2 = fold (upload_iteration ws wordsFromFile totalWords) [0..<nat totalWords] s1
          in s2\<lparr>isProcessing := False, error := None\<rparr>)"

subsection \<open>The page\<close>

text \<open>
  What a user can do with the rendered page. Each event runs the callback of the
  current render, whose \<^verbatim>\<open>words\<close> is the registry of the state: \<open>AddToken w\<close> calls
  \<^verbatim>\<open>addWord\<close>, \<open>FormAdd w\<close> types \<open>w\<close> into the form and presses the button,
  \<open>Upload f\<close> chooses a file and lets the call run to its end, \<open>Process w rnd\<close>
  presses the process button with the input \<open>w\<close>.
\<close>

datatype event =
    AddToken string
  | FormAdd string
  | Upload chosen_file
  | Process string samples

fun step :: "event \<Rightarrow> state \<Rightarrow> state" where
  "step (AddToken w) s = addWord (words s) w s"
| "step (FormAdd w) s = handleAddWord (words s) (s\<lparr>newWord := w\<rparr>)"
| "step (Upload f) s = handleFileUpload (words s) f s"
| "step (Process w rnd) s = processInput (words s) rnd w s"

definition run :: "event list \<Rightarrow> state \<Rightarrow> state" where
  "run evs s = fold step evs s"

subsection \<open>An upload that waits for its timers\<close>

text \<open>
  \<^verbatim>\<open>handleFileUpload\<close> is an \<^verbatim>\<open>async\<close> function: it waits for the text of the file
  (\<^verbatim>\<open>await file.text()\<close>) and, after every insertion, for a timer
  (\<^verbatim>\<open>await new Promise(resolve => setTimeout(resolve, 0))\<close>), and the page handles
  other events in the meantime. A call that is waiting is a task: the \<^verbatim>\<open>words\<close> its
  callbacks captured, its tokens, its \<^verbatim>\<open>totalWords\<close> and its loop counter. A wait that
  ends (\<open>Timer\<close>) runs the next pass of the loop, or leaves the loop and ends the call. A page is
  the state together with the calls that are waiting.
\<close>

record upload_task =
  task_words :: "string list"
  task_tokens :: "string list"
  task_total :: int
  task_i :: nat

definition start_upload ::
  "string list \<Rightarrow> chosen_file \<Rightarrow> state \<Rightarrow> state \<times> upload_task option" where
  "start_upload ws f s =
     (case f of
        NoFile \<Rightarrow> (s, None)
      | Unreadable \<Rightarrow>
          (s\<lparr>isProcessing := False, progress := 0,
             error := Some ''Error reading file. Please try again.''\<rparr>, None)
      | FileText text \<Rightarrow>
          let wordsFromFile = match_words (toLowerCase text) in
          (s\<lparr>isProcessing := True, progress := 0\<rparr>,
           Some \<lparr>task_words = ws, task_tokens = wordsFromFile,
                 task_total = min (int (length wordsFromFile)) (int MAX_WORDS - int (length ws)),
                 task_i = 0\<rparr>))"

definition resume_upload :: "upload_task \<Rightarrow> state \<Rightarrow> state \<times> upload_task option" where
  "resume_upload t s =
     (if int (task_i t) < task_total t
      then (upload_iteration (task_words t) (task_tokens t) (task_total t) (task_i t) s,
            Some (t\<lparr>task_i := task_i t + 1\<rparr>))
      else (s\<lparr>isProcessing := False, error := None\<rparr>, None))"

record page =
  current :: state
  waiting :: "upload_task list"

datatype turn =
    Click event
  | Choose chosen_file
  | Timer nat

fun turn_step :: "turn \<Rightarrow> page \<Rightarrow> page" where
  "turn_step (Click e) p = p\<lparr>current := step e (current p)\<rparr>"
| "turn_step (Choose f) p =
     (case start_upload (words (current p)) f (current p) of
        (s, None) \<Rightarrow> p\<lparr>current := s\<rparr>
      | (s, Some t) \<Rightarrow> \<lparr>current = s, waiting = waiting p @ [t]\<rparr>)"
| "turn_step (Timer k) p =
     (if k < length (waiting p) then
        (case resume_upload (waiting p ! k) (current p) of
           (s, Some t) \<Rightarrow> \<lparr>current = s, waiting = (waiting p)[k := t]\<rparr>
         | (s, None) \<Rightarrow> \<lparr>current = s, waiting = take k (waiting p) @ drop (Suc k) (waiting p)\<rparr>)
      else p)"

definition turns :: "turn list \<Rightarrow> page \<Rightarrow> page" where
  "turns ts p = fold turn_step ts p"

subsection \<open>Reading a texture\<close>

text \<open>
  Channel \<open>c\<close> of the cell in column \<open>x\<close> of row \<open>y\<close>, when the texture has such a
  cell; \<open>grid_channel\<close> and \<open>vocabulary_channel\<close> read the two textures of a state.
\<close>

definition channel :: "texture \<Rightarrow> nat \<Rightarrow> nat \<Rightarrow> nat \<Rightarrow> real option" where
  "channel t x y c =
     (let k = (y * tex_width t + x) * 4 + c in
      if x < tex_width t \<and> y < tex_height t \<and> c < 4 \<and> k < length (pixels t)
      then Some (pixels t ! k) else None)"


definition vocabulary_channel :: "state \<Rightarrow> nat \<Rightarrow> nat \<Rightarrow> nat \<Rightarrow> real option" where
  "vocabulary_channel s x y c =
     (case wordDataTextureRef s of None \<Rightarrow> None | Some t \<Rightarrow> channel t x y c)"

subsection \<open>Concrete inputs\<close>

text \<open>
  A browser in which every step of the mount effect succeeds and whose context accepts
  floating-point textures, a sample stream whose every sample is one half, and the state
  of the page after mounting there.
\<close>

definition browser_ok :: env where
  "browser_ok =
     \<lparr>has_canvas = True, has_webgl = True, shaders_compile = True, program_links = True,
      float_textures = True\<rparr>"

definition half_samples :: samples where
  "half_samples k = 1 / 2"

definition mounted :: state where
  "mounted = mount browser_ok half_samples initial_state"

text \<open>
  The same for a WebGL 1 context as the page gets it from \<^verbatim>\<open>getContext('webgl')\<close>: the
  extension is not enabled and floating-point textures are refused.
\<close>

definition browser_webgl1 :: env where
  "browser_webgl1 =
     \<lparr>has_canvas = True, has_webgl = True, shaders_compile = True, program_links = True,
      float_textures = False\<rparr>"

definition mounted_webgl1 :: state where
  "mounted_webgl1 = mount browser_webgl1 half_samples initial_state"


text \<open>
  A text with as many different tokens as one likes, each followed by a blank: token
  \<open>k\<close> is a run of the letter \<open>a\<close> and a run of the letter \<open>b\<close> whose lengths are the
  quotient and the remainder of \<open>k\<close> by 400, each plus one.
\<close>

definition numbered_word :: "nat \<Rightarrow> string" where
  "numbered_word k =
     replicate (Suc (k div 400)) (CHR ''a'') @ replicate (Suc (k mod 400)) (CHR ''b'')"

definition numbered_text :: "nat \<Rightarrow> string" where
  "numbered_text n = concat (map (\<lambda>k. numbered_word k @ '' '') [0..<n])"


section \<open>Single precision on the numbers of the page\<close>




lemma spacing_top_binade: "1 / 2 \<le> x \<Longrightarrow> x < 1 \<Longrightarrow> spacing x = 1 / 2 ^ 24"
  by (simp add: spacing_def eval_nat_numeral)

lemma spacing_second_binade: "1 / 4 \<le> x \<Longrightarrow> x < 1 / 2 \<Longrightarrow> spacing x = 1 / 2 ^ 25"
  by (simp add: spacing_def eval_nat_numeral)

lemma fround_0: "fround 0 = 0"
  by (simp add: fround_def round_half_even_def)

lemma fround_half: "fround (1 / 2) = 1 / 2"
  by (simp add: fround_def spacing_top_binade round_half_even_def)


lemma fround_1: "fround 1 = 1"
  by (simp add: fround_def spacing_def round_half_even_def eval_nat_numeral)

lemma fround_a: "fround (97 / 255) = 12763843 / 2 ^ 25"
proof -
  have sp: "spacing (97 / 255) = 1 / 2 ^ 25"
    by (rule spacing_second_binade) simp_all
  show ?thesis
    unfolding fround_def sp by (simp add: round_half_even_def Let_def)
qed


lemma fround_b: "fround (98 / 255) = 12895429 / 2 ^ 25"
proof -
  have sp: "spacing (98 / 255) = 1 / 2 ^ 25"
    by (rule spacing_second_binade) simp_all
  show ?thesis
    unfolding fround_def sp by (simp add: round_half_even_def Let_def)
qed

section \<open>Array loops and uploads\<close>

text \<open>The loops that write every fourth entry of an array.\<close>

lemma stride_fill_length:
  "length (fold (\<lambda>i a. a[i * 4 := v i]) [0..<n] a) = length (a :: real list)"
  by (induction n) simp_all

lemma stride_fill_nth:
  "k < length a \<Longrightarrow>
   fold (\<lambda>i a. a[i * 4 := v i]) [0..<n] a ! k =
     (if k mod 4 = 0 \<and> k div 4 < n then v (k div 4) else (a :: real list) ! k)"
proof (induction n)
  case 0
  then show ?case by simp
next
  case (Suc n)
  let ?b = "fold (\<lambda>i a. a[i * 4 := v i]) [0..<n] a"
  have len: "length ?b = length a" by (rule stride_fill_length)
  have "fold (\<lambda>i a. a[i * 4 := v i]) [0..<Suc n] a ! k = ?b[n * 4 := v n] ! k"
    by simp
  also have "\<dots> = (if k = n * 4 then v n else ?b ! k)"
    using Suc.prems len by (simp add: nth_list_update)
  also have "\<dots> = (if k mod 4 = 0 \<and> k div 4 < Suc n then v (k div 4) else a ! k)"
    using Suc.IH [OF Suc.prems] by (auto simp: less_Suc_eq)
  finally show ?case .
qed

lemma stride_fill_zeros:
  "fold (\<lambda>i a. a[i * 4 := v i]) [0..<n] (Float32Array m) =
     map (\<lambda>k. if k mod 4 = 0 \<and> k div 4 < n then v (k div 4) else 0) [0..<m]"
  by (rule nth_equalityI)
    (simp_all add: stride_fill_length stride_fill_nth Float32Array_def)


lemma encode_word_eq:
  "encode_word word =
     map (\<lambda>k. if k mod 4 = 0 \<and> k div 4 < length word
               then fround (real (of_char (word ! (k div 4))) / 255) else 0) [0..<TEXTURE_SIZE * 4]"
  unfolding encode_word_def by (rule stride_fill_zeros)

text \<open>The loop that writes every entry.\<close>

lemma fill_random_length: "length (fill_random rnd first a) = length a"
proof -
  have "length (fold (\<lambda>i a. a[i := fround (rnd (first + i))]) [0..<n] a) = length a" for n
    by (induction n) simp_all
  then show ?thesis by (simp add: fill_random_def)
qed

lemma fill_random_nth:
  assumes "k < length a"
  shows "fill_random rnd first a ! k = fround (rnd (first + k))"
proof -
  have len: "length (fold (\<lambda>i a. a[i := fround (rnd (first + i))]) [0..<n] a) = length a" for n
    by (induction n) simp_all
  have "k < length a \<Longrightarrow> fold (\<lambda>i a. a[i := fround (rnd (first + i))]) [0..<n] a ! k =
          (if k < n then fround (rnd (first + k)) else a ! k)" for n
  proof (induction n)
    case 0
    then show ?case by simp
  next
    case (Suc n)
    then show ?case using len [of n] by (auto simp: nth_list_update less_Suc_eq)
  qed
  from this [of "length a"] assms show ?thesis by (simp add: fill_random_def)
qed

lemma fill_random_eq:
  "fill_random rnd first (Float32Array n) = map (\<lambda>i. fround (rnd (first + i))) [0..<n]"
  by (rule nth_equalityI)
    (simp_all add: fill_random_length fill_random_nth Float32Array_def)

text \<open>An upload of the whole rectangle of a texture replaces its data.\<close>

lemma TEXTURE_SIZE_pos: "0 < TEXTURE_SIZE"
  by (simp add: TEXTURE_SIZE_def)

lemma texSubImage2D_whole:
  assumes "length (pixels t) = tex_width t * tex_height t * 4"
    and "length data = tex_width t * tex_height t * 4"
    and "0 < tex_width t"
  shows "texSubImage2D t 0 0 (tex_width t) (tex_height t) data = Inr (t\<lparr>pixels := data\<rparr>)"
proof -
  let ?W = "tex_width t" and ?H = "tex_height t"
  let ?f = "\<lambda>k. let x = (k div 4) mod ?W; y = (k div 4) div ?W in
               if 0 \<le> x \<and> x < 0 + ?W \<and> 0 \<le> y \<and> y < 0 + ?H
               then data ! (((y - 0) * ?W + (x - 0)) * 4 + k mod 4)
               else pixels t ! k"
  have "map ?f [0..<length (pixels t)] = data"
  proof (rule nth_equalityI)
    show "length (map ?f [0..<length (pixels t)]) = length data"
      using assms by simp
  next
    fix k
    assume "k < length (map ?f [0..<length (pixels t)])"
    then have k: "k < ?W * ?H * 4" using assms by simp
    then have pos: "0 < ?W" by (cases "?W = 0") auto
    from k have "k div 4 < ?W * ?H" by (simp add: less_mult_imp_div_less)
    then have y: "(k div 4) div ?W < ?H"
      by (simp add: less_mult_imp_div_less mult.commute)
    have x: "(k div 4) mod ?W < ?W" using pos by simp
    have "((k div 4) div ?W * ?W + (k div 4) mod ?W) * 4 + k mod 4 = k"
      by simp
    with x y k assms show "map ?f [0..<length (pixels t)] ! k = data ! k"
      by (simp add: Let_def)
  qed
  with assms show ?thesis
    by (simp add: texSubImage2D_def)
qed

text \<open>
  The state after a mount in which shaders and program are built: the two uploads are
  made, and the textures have their images where the context accepts them.
\<close>

lemma mount_built:
  assumes "has_canvas e" "has_webgl e" "shaders_compile e" "program_links e"
  shows "mount e rnd s =
    s\<lparr>glRef := True,
      neuronStateTextureRef := Some (if float_textures e then
         \<lparr>tex_width = TEXTURE_SIZE, tex_height = TEXTURE_SIZE,
          pixels = map (\<lambda>i. fround (rnd i)) [0..<TEXTURE_SIZE * TEXTURE_SIZE * 4]\<rparr>
         else createAndSetupTexture),
      wordDataTextureRef := Some (if float_textures e then
         \<lparr>tex_width = TEXTURE_SIZE, tex_height = 1,
          pixels = map (\<lambda>i. fround (rnd (TEXTURE_SIZE * TEXTURE_SIZE * 4 + i)))
                     [0..<TEXTURE_SIZE * 4]\<rparr>
         else createAndSetupTexture),
      glCalls := glCalls s @
        [TexImage2D NeuronState TEXTURE_SIZE TEXTURE_SIZE
           (map (\<lambda>i. fround (rnd i)) [0..<TEXTURE_SIZE * TEXTURE_SIZE * 4]),
         TexImage2D WordData TEXTURE_SIZE 1
           (map (\<lambda>i. fround (rnd (TEXTURE_SIZE * TEXTURE_SIZE * 4 + i))) [0..<TEXTURE_SIZE * 4])]\<rparr>"
  using assms
  by (simp add: mount_def Let_def fill_random_eq texImage2D_def texture_after_def)

lemma half_samples_stored:
  "map (\<lambda>i. fround (half_samples (f i))) [0..<n] = replicate n (1 / 2)"
  by (simp add: half_samples_def fround_half map_replicate_const)

lemma mounted_eq:
  "mounted =
    initial_state\<lparr>glRef := True,
      neuronStateTextureRef := Some \<lparr>tex_width = TEXTURE_SIZE, tex_height = TEXTURE_SIZE,
         pixels = replicate (TEXTURE_SIZE * TEXTURE_SIZE * 4) (1 / 2)\<rparr>,
      wordDataTextureRef := Some \<lparr>tex_width = TEXTURE_SIZE, tex_height = 1,
         pixels = replicate (TEXTURE_SIZE * 4) (1 / 2)\<rparr>,
      glCalls :=
        [TexImage2D NeuronState TEXTURE_SIZE TEXTURE_SIZE
           (replicate (TEXTURE_SIZE * TEXTURE_SIZE * 4) (1 / 2)),
         TexImage2D WordData TEXTURE_SIZE 1 (replicate (TEXTURE_SIZE * 4) (1 / 2))]\<rparr>"
  using half_samples_stored [of "\<lambda>i. i"]
    half_samples_stored [of "\<lambda>i. TEXTURE_SIZE * TEXTURE_SIZE * 4 + i"]
  unfolding mounted_def
  by (simp add: mount_built browser_ok_def initial_state_def)

lemma mounted_webgl1_eq:
  "mounted_webgl1 =
    initial_state\<lparr>glRef := True,
      neuronStateTextureRef := Some createAndSetupTexture,
      wordDataTextureRef := Some createAndSetupTexture,
      glCalls :=
        [TexImage2D NeuronState TEXTURE_SIZE TEXTURE_SIZE
           (replicate (TEXTURE_SIZE * TEXTURE_SIZE * 4) (1 / 2)),
         TexImage2D WordData TEXTURE_SIZE 1 (replicate (TEXTURE_SIZE * 4) (1 / 2))]\<rparr>"
  using half_samples_stored [of "\<lambda>i. i"]
    half_samples_stored [of "\<lambda>i. TEXTURE_SIZE * TEXTURE_SIZE * 4 + i"]
  unfolding mounted_webgl1_def
  by (simp add: mount_built browser_webgl1_def initial_state_def)

section \<open>Lookup and cyclic successor\<close>

lemma indexOf_None_iff: "indexOf ws w = None \<longleftrightarrow> w \<notin> set ws"
  by (induction ws) auto

lemma indexOf_first:
  "i < length ws \<Longrightarrow> ws ! i = w \<Longrightarrow> w \<notin> set (take i ws) \<Longrightarrow> indexOf ws w = Some i"
proof (induction ws arbitrary: i)
  case Nil
  then show ?case by simp
next
  case (Cons x xs)
  show ?case
  proof (cases i)
    case 0
    with Cons.prems show ?thesis by simp
  next
    case (Suc j)
    with Cons.prems have "x \<noteq> w" "j < length xs" "xs ! j = w" "w \<notin> set (take j xs)"
      by auto
    with Cons.IH [of j] Suc show ?thesis by simp
  qed
qed

text \<open>
  C1. For every registry \<open>ws\<close> and every word \<open>w\<close> whose insertion index is \<open>i\<close> (the
  index at which the registry holds \<open>w\<close>, with no earlier occurrence), \<^verbatim>\<open>processInput\<close>
  outputs the token at index \<open>(i + 1) mod length ws\<close>; for the tokens \<open>[a, b, c]\<close> the
  word \<open>c\<close> gives \<open>a\<close>.
\<close>

theorem processInput_cyclic_successor:
  assumes "i < length ws" and "ws ! i = w" and "w \<notin> set (take i ws)"
  shows "outputWord (processInput ws rnd w s) = ws ! ((i + 1) mod length ws)"
proof -
  from assms have "indexOf ws w = Some i" by (rule indexOf_first)
  then show ?thesis
    by (simp add: processInput_def Let_def)
qed

theorem processInput_cyclic_successor_witness:
  "outputWord (processInput [''a'', ''b'', ''c''] half_samples ''c'' mounted) = ''a''"
  using processInput_cyclic_successor
    [of 2 "[''a'', ''b'', ''c'']" "''c''" half_samples mounted]
  by simp

text \<open>In a registry without duplicates every occurrence is the first one.\<close>

lemma distinct_first_occurrence:
  assumes "distinct ws" and "i < length ws"
  shows "ws ! i \<notin> set (take i ws)"
proof
  assume "ws ! i \<in> set (take i ws)"
  then obtain j where "j < i" and "ws ! j = ws ! i"
    using assms(2) by (auto simp: in_set_conv_nth)
  with assms show False
    by (simp add: nth_eq_iff_index_eq)
qed

section \<open>Unknown words\<close>

text \<open>
  C2. For every registry and every word \<open>w\<close> that is not in it, \<^verbatim>\<open>processInput\<close> outputs
  the sentinel \<^verbatim>\<open>'Unknown word'\<close> and leaves the neuron-state texture (and every other
  part of the state) as it was.
\<close>

theorem processInput_unknown_word:
  assumes "w \<notin> set ws"
  shows "outputWord (processInput ws rnd w s) = ''Unknown word''
       \<and> neuronStateTextureRef (processInput ws rnd w s) = neuronStateTextureRef s
       \<and> processInput ws rnd w s = s\<lparr>outputWord := ''Unknown word''\<rparr>"
proof -
  from assms have "indexOf ws w = None" by (simp add: indexOf_None_iff)
  then show ?thesis by (simp add: processInput_def)
qed

theorem processInput_unknown_word_witness:
  "outputWord (processInput [''x'', ''y'', ''z''] half_samples ''w'' mounted) = ''Unknown word''
   \<and> neuronStateTextureRef (processInput [''x'', ''y'', ''z''] half_samples ''w'' mounted)
       = neuronStateTextureRef mounted"
  using processInput_unknown_word [of "''w''" "[''x'', ''y'', ''z'']" half_samples mounted]
  by simp

section \<open>The output token and the grid\<close>

text \<open>
  C10. The word that \<^verbatim>\<open>processInput\<close> outputs is fixed by the registry and the input
  word: two calls with the same registry and the same word output the same word,
  whatever the two states (their textures included) and the two sample streams are.
\<close>

theorem processInput_output_determined:
  "outputWord (processInput ws rnd w s) = outputWord (processInput ws rnd' w s')"
  by (simp add: processInput_def Let_def split: option.splits)

theorem processInput_output_determined_witness:
  "outputWord (processInput [''x'', ''y'', ''z''] half_samples ''y'' mounted)
     = outputWord (processInput [''x'', ''y'', ''z''] (\<lambda>k. 0) ''y'' initial_state)"
  using processInput_output_determined
    [of "[''x'', ''y'', ''z'']" half_samples "''y''" mounted "\<lambda>k. 0" initial_state]
  by simp

section \<open>The vocabulary buffer\<close>

lemma addWord_words:
  "words (addWord ws w s) =
     (if w \<notin> set ws \<and> length ws < MAX_WORDS then words s @ [w] else words s)"
  by (simp add: addWord_def Let_def split: option.splits)

lemma texSubImage2D_outside:
  "0 < tex_height t \<Longrightarrow> tex_height t < yoffset + height \<Longrightarrow>
   texSubImage2D t xoffset yoffset width height data = Inl INVALID_VALUE"
  by (simp add: texSubImage2D_def)

lemma texSubImage2D_refused:
  "tex_height t < yoffset + height \<Longrightarrow>
   texture_after (texSubImage2D t xoffset yoffset width height data) t = t"
  by (simp add: texSubImage2D_def texture_after_def)

text \<open>
  A row that the texture does not have: the upload is refused and the buffer stays as it
  is. With a texture of one row this is every call whose captured registry is not empty.
\<close>

lemma addWord_row_outside:
  assumes "wordDataTextureRef s = Some t" and "tex_height t \<le> length ws"
  shows "wordDataTextureRef (addWord ws w s) = Some t"
  using assms by (simp add: addWord_def Let_def texSubImage2D_refused)

text \<open>Row 0: the encoding of the word replaces the row.\<close>

lemma addWord_row_0:
  assumes "length ws < MAX_WORDS" "w \<notin> set ws" "length ws = 0"
    and "glRef s" and "wordDataTextureRef s = Some t"
    and "tex_width t = TEXTURE_SIZE" and "tex_height t = 1"
    and "length (pixels t) = TEXTURE_SIZE * 4"
  shows "wordDataTextureRef (addWord ws w s) = Some (t\<lparr>pixels := encode_word w\<rparr>)"
proof -
  have "texSubImage2D t 0 0 TEXTURE_SIZE 1 (encode_word w) = Inr (t\<lparr>pixels := encode_word w\<rparr>)"
    using texSubImage2D_whole [of t "encode_word w"] assms(6-8)
    by (simp add: encode_word_eq TEXTURE_SIZE_pos)
  with assms(1-5) show ?thesis
    by (simp add: addWord_def Let_def texture_after_def)
qed

lemma words_mounted: "words mounted = []"
  by (simp add: mounted_eq initial_state_def)

lemma first_add_mounted:
  "run [AddToken ''a''] mounted =
     mounted\<lparr>words := [''a''],
       wordDataTextureRef :=
         Some \<lparr>tex_width = TEXTURE_SIZE, tex_height = 1, pixels = encode_word ''a''\<rparr>,
       glCalls := glCalls mounted @
         [TexSubImage2D WordData 0 0 TEXTURE_SIZE 1 (encode_word ''a'')]\<rparr>"
proof -
  have "texSubImage2D \<lparr>tex_width = TEXTURE_SIZE, tex_height = 1,
           pixels = replicate (TEXTURE_SIZE * 4) (1 / 2)\<rparr> 0 0 TEXTURE_SIZE 1 (encode_word ''a'')
        = Inr \<lparr>tex_width = TEXTURE_SIZE, tex_height = 1, pixels = encode_word ''a''\<rparr>"
    using texSubImage2D_whole [of "\<lparr>tex_width = TEXTURE_SIZE, tex_height = 1,
           pixels = replicate (TEXTURE_SIZE * 4) (1 / 2)\<rparr>" "encode_word ''a''"]
    by (simp add: encode_word_eq TEXTURE_SIZE_pos)
  then show ?thesis
    by (simp add: run_def addWord_def Let_def texture_after_def mounted_eq initial_state_def
        MAX_WORDS_def)
qed

lemma second_add_mounted:
  "run [AddToken ''a'', AddToken ''b''] mounted =
     mounted\<lparr>words := [''a'', ''b''],
       wordDataTextureRef :=
         Some \<lparr>tex_width = TEXTURE_SIZE, tex_height = 1, pixels = encode_word ''a''\<rparr>,
       glCalls := glCalls mounted @
         [TexSubImage2D WordData 0 0 TEXTURE_SIZE 1 (encode_word ''a''),
          TexSubImage2D WordData 0 1 TEXTURE_SIZE 1 (encode_word ''b'')]\<rparr>"
proof -
  have "run [AddToken ''a'', AddToken ''b''] mounted
      = step (AddToken ''b'') (run [AddToken ''a''] mounted)"
    by (simp add: run_def)
  moreover have "glRef mounted"
    by (simp add: mounted_eq)
  ultimately show ?thesis
    unfolding first_add_mounted
    by (simp add: addWord_def Let_def texture_after_def texSubImage2D_outside MAX_WORDS_def)
qed

lemma second_add_mounted_webgl1:
  "run [AddToken ''a'', AddToken ''b''] mounted_webgl1 =
     mounted_webgl1\<lparr>words := [''a'', ''b''],
       glCalls := glCalls mounted_webgl1 @
         [TexSubImage2D WordData 0 0 TEXTURE_SIZE 1 (encode_word ''a''),
          TexSubImage2D WordData 0 1 TEXTURE_SIZE 1 (encode_word ''b'')]\<rparr>"
  by (simp add: run_def addWord_def Let_def texture_after_def texSubImage2D_def
      createAndSetupTexture_def mounted_webgl1_eq initial_state_def MAX_WORDS_def)

text \<open>
  C6. The claim: \<^verbatim>\<open>addWord\<close> writes the encoding of a word registered at index \<open>i\<close> into
  row \<open>i\<close> of the vocabulary buffer. The code at \<open>i = 1\<close>: on the mounted page, after
  \<open>a\<close> is registered, registering \<open>b\<close> extends the registry to \<open>[a, b]\<close> and calls
  \<^verbatim>\<open>texSubImage2D\<close> for row 1 of a texture with the single row 0. The call is refused,
  the buffer is what it was after \<open>a\<close>, it has no row 1, and its first channel still
  holds the single-precision \<open>97 / 255\<close> for \<open>a\<close>, not that of \<open>98 / 255\<close> for \<open>b\<close>.
  A context that refuses floating-point textures gets the same calls: an image of one row
  is asked for at the mount, row 1 is addressed for \<open>b\<close>, and the buffer has no cell.
\<close>

theorem second_word_row_rejected:
  "words (run [AddToken ''a'', AddToken ''b''] mounted) = [''a'', ''b'']
   \<and> wordDataTextureRef (run [AddToken ''a'', AddToken ''b''] mounted)
       = wordDataTextureRef (run [AddToken ''a''] mounted)
   \<and> wordDataTextureRef (run [AddToken ''a''] mounted)
       = Some \<lparr>tex_width = 4096, tex_height = 1, pixels = encode_word ''a''\<rparr>
   \<and> texSubImage2D \<lparr>tex_width = 4096, tex_height = 1, pixels = encode_word ''a''\<rparr>
        0 1 TEXTURE_SIZE 1 (encode_word ''b'') = Inl INVALID_VALUE
   \<and> vocabulary_channel (run [AddToken ''a'', AddToken ''b''] mounted) 0 1 0 = None
   \<and> vocabulary_channel (run [AddToken ''a'', AddToken ''b''] mounted) 0 0 0
       = Some (fround (97 / 255))
   \<and> encode_word ''b'' ! 0 = fround (98 / 255)
   \<and> fround (97 / 255) \<noteq> fround (98 / 255)
   \<and> glCalls (run [AddToken ''a'', AddToken ''b''] mounted_webgl1)
       = [TexImage2D NeuronState 4096 4096 (replicate (4096 * 4096 * 4) (1 / 2)),
          TexImage2D WordData 4096 1 (replicate (4096 * 4) (1 / 2)),
          TexSubImage2D WordData 0 0 4096 1 (encode_word ''a''),
          TexSubImage2D WordData 0 1 4096 1 (encode_word ''b'')]
   \<and> words (run [AddToken ''a'', AddToken ''b''] mounted_webgl1) = [''a'', ''b'']
   \<and> vocabulary_channel (run [AddToken ''a'', AddToken ''b''] mounted_webgl1) 0 1 0 = None
   \<and> vocabulary_channel (run [AddToken ''a'', AddToken ''b''] mounted_webgl1) 0 0 0 = None"
  unfolding second_add_mounted first_add_mounted second_add_mounted_webgl1
  by (simp add: texSubImage2D_outside vocabulary_channel_def channel_def encode_word_eq
      TEXTURE_SIZE_def fround_a fround_b mounted_webgl1_eq createAndSetupTexture_def)

section \<open>The upload for the grid after a known word\<close>



text \<open>Without an image the upload is refused and the grid stays without one.\<close>

lemma processInput_without_image:
  assumes "neuronStateTextureRef s = Some createAndSetupTexture"
  shows "neuronStateTextureRef (processInput ws rnd w s) = Some createAndSetupTexture"
  using assms
  by (simp add: processInput_def Let_def texture_after_def texSubImage2D_def
      createAndSetupTexture_def TEXTURE_SIZE_def split: option.splits)





section \<open>The uploads of the mount\<close>





section \<open>The registry after an operation\<close>

lemma upload_iteration_words:
  "words (upload_iteration ws toks tot i s) =
     (if toks ! i \<notin> set ws \<and> length ws < MAX_WORDS then words s @ [toks ! i] else words s)"
  by (simp add: upload_iteration_def addWord_words)

lemma upload_loop_words:
  "n \<le> length toks \<Longrightarrow>
   words (fold (upload_iteration ws toks tot) [0..<n] s) =
     words s @ filter (\<lambda>w. w \<notin> set ws \<and> length ws < MAX_WORDS) (take n toks)"
proof (induction n)
  case 0
  then show ?case by simp
next
  case (Suc n)
  then have "take (Suc n) toks = take n toks @ [toks ! n]"
    by (simp add: take_Suc_conv_app_nth)
  with Suc show ?case
    by (simp add: upload_iteration_words)
qed

lemma handleFileUpload_words:
  "words (handleFileUpload ws (FileText text) s) =
     words s @ filter (\<lambda>w. w \<notin> set ws) (take (MAX_WORDS - length ws) (match_words (toLowerCase text)))"
proof -
  let ?toks = "match_words (toLowerCase text)"
  let ?n = "nat (min (int (length ?toks)) (int MAX_WORDS - int (length ws)))"
  have n: "?n = min (length ?toks) (MAX_WORDS - length ws)" by auto
  then have "?n \<le> length ?toks" by simp
  from upload_loop_words [OF this]
  have "words (handleFileUpload ws (FileText text) s) =
      words s @ filter (\<lambda>w. w \<notin> set ws \<and> length ws < MAX_WORDS) (take ?n ?toks)"
    by (simp add: handleFileUpload_def Let_def)
  also have "take ?n ?toks = take (MAX_WORDS - length ws) ?toks"
    unfolding n by (simp add: min_def)
  also have "filter (\<lambda>w. w \<notin> set ws \<and> length ws < MAX_WORDS) (take (MAX_WORDS - length ws) ?toks)
      = filter (\<lambda>w. w \<notin> set ws) (take (MAX_WORDS - length ws) ?toks)"
    by (cases "length ws < MAX_WORDS") simp_all
  finally show ?thesis .
qed

text \<open>The registry after each event of the page, in one equation.\<close>

lemma step_words:
  "words (step e s) =
     (case e of
        AddToken w \<Rightarrow> if w \<notin> set (words s) \<and> length (words s) < MAX_WORDS
                       then words s @ [w] else words s
      | FormAdd w \<Rightarrow> if w \<noteq> [] \<and> w \<notin> set (words s) \<and> length (words s) < MAX_WORDS
                      then words s @ [w] else words s
      | Upload f \<Rightarrow>
          (case f of
             FileText text \<Rightarrow>
               words s @ filter (\<lambda>w. w \<notin> set (words s))
                 (take (MAX_WORDS - length (words s)) (match_words (toLowerCase text)))
           | _ \<Rightarrow> words s)
      | Process w rnd \<Rightarrow> words s)"
proof (cases e)
  case (AddToken w)
  then show ?thesis by (simp add: addWord_words)
next
  case (FormAdd w)
  then show ?thesis by (simp add: handleAddWord_def addWord_words)
next
  case (Upload f)
  show ?thesis
  proof (cases f)
    case NoFile
    with Upload show ?thesis by (simp add: handleFileUpload_def)
  next
    case Unreadable
    with Upload show ?thesis by (simp add: handleFileUpload_def)
  next
    case (FileText body)
    with Upload show ?thesis by (simp add: handleFileUpload_words)
  qed
next
  case (Process w rnd)
  then show ?thesis
    by (simp add: processInput_def Let_def split: option.splits)
qed

text \<open>
  When every operation ends before the next one starts, the registry stays within the
  capacity, and at the capacity no operation changes it.
\<close>

lemma step_capacity:
  assumes "length (words s) \<le> MAX_WORDS"
  shows "length (words (step e s)) \<le> MAX_WORDS"
proof -
  have "length (filter P (take (MAX_WORDS - length (words s)) toks)) \<le> MAX_WORDS - length (words s)"
    for P and toks :: "string list"
    by (rule order_trans [OF length_filter_le]) simp
  with assms show ?thesis
    unfolding step_words
    by (auto split: event.splits chosen_file.splits simp: le_diff_conv2 add.commute)
qed

lemma run_capacity:
  "length (words s) \<le> MAX_WORDS \<Longrightarrow> length (words (run evs s)) \<le> MAX_WORDS"
  unfolding run_def
  by (induction evs arbitrary: s) (simp_all add: step_capacity)

lemma step_full:
  "MAX_WORDS \<le> length (words s) \<Longrightarrow> words (step e s) = words s"
  unfolding step_words by (simp split: event.splits chosen_file.splits)

lemma step_prefix: "prefix (words s) (words (step e s))"
  unfolding step_words by (simp split: event.splits chosen_file.splits)

lemma run_prefix: "prefix (words s) (words (run evs s))"
  unfolding run_def
proof (induction evs arbitrary: s)
  case Nil
  then show ?case by simp
next
  case (Cons e evs)
  from step_prefix [of s e] Cons [of "step e s"] show ?case
    by (simp del: step.simps)
qed

section \<open>The tokens of a text\<close>

lemma utf16_append: "utf16 (a @ b) = utf16 a @ utf16 b"
  by (simp add: utf16_def)

lemma toLowerCase_append: "toLowerCase (a @ b) = toLowerCase a @ toLowerCase b"
  by (simp add: toLowerCase_def)

lemma utf16_Cons: "utf16 (c # cs) = of_char c # utf16 cs"
  by (simp add: utf16_def)

lemma toLowerCase_Cons: "toLowerCase (u # us) = lower_unit u @ toLowerCase us"
  by (simp add: toLowerCase_def)

lemma match_small: "match_words (toLowerCase (utf16 ''a a'')) = [''a'', ''a'']"
  by code_simp

lemma match_Hello: "match_words (toLowerCase (utf16 ''Hello'')) = [''hello'']"
  by code_simp

text \<open>A run of word characters up to a character that is none is one token.\<close>

lemma match_words_from_run:
  "list_all word_unit u \<Longrightarrow>
   match_words_from cur (u @ rest) = match_words_from (cur @ map char_of u) rest"
  by (induction u arbitrary: cur) simp_all

lemma match_words_from_token:
  assumes "u \<noteq> []" and "list_all word_unit u" and "\<not> word_unit c"
  shows "match_words_from [] (u @ c # rest) = map char_of u # match_words_from [] rest"
  using assms by (simp add: match_words_from_run)

text \<open>Normalized tokens with a blank after each are a text with exactly these tokens.\<close>

lemma normalized_units:
  assumes "normalized t"
  shows "toLowerCase (utf16 t) = utf16 t" and "list_all word_unit (utf16 t)"
    and "map char_of (utf16 t) = t" and "utf16 t \<noteq> []"
proof -
  have c: "(48 \<le> (of_char c :: nat) \<and> (of_char c :: nat) \<le> 57) \<or> (of_char c :: nat) = 95
      \<or> (97 \<le> (of_char c :: nat) \<and> (of_char c :: nat) \<le> 122)" if "c \<in> set t" for c
    using assms that by (auto simp: normalized_def list_all_iff)
  have "lower_unit (of_char c) = [of_char c]" if "c \<in> set t" for c
    using c [OF that] by (auto simp: lower_unit_def)
  then have "concat (map lower_unit (map of_char t)) = map of_char t"
    by (induction t) simp_all
  then show "toLowerCase (utf16 t) = utf16 t"
    by (simp add: toLowerCase_def utf16_def)
  show "list_all word_unit (utf16 t)"
    using c by (auto simp: list_all_iff utf16_def word_unit_def)
  show "map char_of (utf16 t) = t"
    by (simp add: utf16_def comp_def)
  show "utf16 t \<noteq> []"
    using assms by (simp add: normalized_def utf16_def)
qed

lemma toLowerCase_joined:
  "list_all normalized ts \<Longrightarrow>
   toLowerCase (utf16 (concat (map (\<lambda>t. t @ '' '') ts))) = utf16 (concat (map (\<lambda>t. t @ '' '') ts))"
proof (induction ts)
  case Nil
  then show ?case by (simp add: toLowerCase_def utf16_def)
next
  case (Cons t ts)
  have "lower_unit 32 = [32]"
    by (simp add: lower_unit_def)
  with Cons show ?case
    by (simp add: utf16_append utf16_Cons toLowerCase_append toLowerCase_Cons
        normalized_units(1))
qed

lemma match_words_joined:
  "list_all normalized ts \<Longrightarrow>
   match_words_from [] (utf16 (concat (map (\<lambda>t. t @ '' '') ts)) @ rest)
     = ts @ match_words_from [] rest"
proof (induction ts)
  case Nil
  then show ?case by (simp add: utf16_def)
next
  case (Cons t ts)
  then have t: "normalized t" and ts: "list_all normalized ts" by simp_all
  have "\<not> word_unit 32" by (simp add: word_unit_def)
  then have "match_words_from [] (utf16 t @ 32 # more) = t # match_words_from [] more" for more
    using match_words_from_token [of "utf16 t" 32 more] normalized_units [OF t] by simp
  moreover have "utf16 (concat (map (\<lambda>t. t @ '' '') (t # ts))) @ rest
      = utf16 t @ 32 # (utf16 (concat (map (\<lambda>t. t @ '' '') ts)) @ rest)"
    by (simp add: utf16_def)
  ultimately show ?case
    using Cons.IH [OF ts] by simp
qed

lemma normalized_numbered: "normalized (numbered_word k)"
  by (auto simp: normalized_def numbered_word_def list_all_iff)

lemma match_words_numbered_text:
  "match_words (toLowerCase (utf16 (numbered_text n))) = map numbered_word [0..<n]"
proof -
  have n: "list_all normalized (map numbered_word [0..<n])"
    by (simp add: list_all_iff normalized_numbered)
  have j: "numbered_text n = concat (map (\<lambda>t. t @ '' '') (map numbered_word [0..<n]))"
    by (simp add: numbered_text_def comp_def)
  show ?thesis
    unfolding match_words_def j toLowerCase_joined [OF n]
    using match_words_joined [OF n, of "[]"] by simp
qed







lemma words_mounted_webgl1: "words mounted_webgl1 = []"
  by (simp add: mounted_webgl1_eq initial_state_def)

section \<open>Tokens and gaps\<close>





text \<open>The tokens of a lower-cased text are normalized.\<close>

lemma lower_unit_word:
  assumes "v \<in> set (lower_unit u)" and "word_unit v"
  shows "(48 \<le> v \<and> v \<le> 57) \<or> v = 95 \<or> (97 \<le> v \<and> v \<le> 122)"
  using assms by (auto simp: lower_unit_def word_unit_def split: if_splits)

lemma match_words_from_tokens:
  "tok \<in> set (match_words_from cur xs) \<Longrightarrow>
     tok \<noteq> [] \<and> set tok \<subseteq> set cur \<union> char_of ` {u \<in> set xs. word_unit u}"
proof (induction xs arbitrary: cur)
  case Nil
  then show ?case by (auto split: if_splits)
next
  case (Cons x xs)
  show ?case
  proof (cases "word_unit x")
    case True
    with Cons.prems have "tok \<in> set (match_words_from (cur @ [char_of x]) xs)" by simp
    from Cons.IH [OF this] True show ?thesis by auto
  next
    case False
    with Cons.prems have "tok = cur \<and> cur \<noteq> [] \<or> tok \<in> set (match_words_from [] xs)"
      by (auto split: if_splits)
    then show ?thesis
    proof
      assume "tok = cur \<and> cur \<noteq> []"
      then show ?thesis by auto
    next
      assume "tok \<in> set (match_words_from [] xs)"
      from Cons.IH [OF this] show ?thesis by auto
    qed
  qed
qed

lemma bulk_tokens_normalized:
  "list_all normalized (match_words (toLowerCase body))"
proof -
  have "normalized tok" if "tok \<in> set (match_words (toLowerCase body))" for tok
  proof -
    from that match_words_from_tokens [of tok "[]" "toLowerCase body"]
    have ne: "tok \<noteq> []"
      and sub: "set tok \<subseteq> char_of ` {u \<in> set (toLowerCase body). word_unit u}"
      by (simp_all add: match_words_def)
    have "(48 \<le> (of_char c :: nat) \<and> (of_char c :: nat) \<le> 57) \<or> (of_char c :: nat) = 95
      \<or> (97 \<le> (of_char c :: nat) \<and> (of_char c :: nat) \<le> 122)" if "c \<in> set tok" for c
    proof -
      from that sub obtain v where v: "c = char_of v" "v \<in> set (toLowerCase body)" "word_unit v"
        by auto
      then obtain u where "v \<in> set (lower_unit u)"
        by (auto simp: toLowerCase_def)
      from lower_unit_word [OF this v(3)] v(1) show ?thesis by auto
    qed
    with ne show ?thesis
      by (simp add: normalized_def list_all_iff)
  qed
  then show ?thesis by (simp add: list_all_iff)
qed

section \<open>Bulk ingestion at the capacity\<close>



section \<open>A token that occurs twice in one upload\<close>

text \<open>
  With the registry that the current render shows, a second \<^verbatim>\<open>addWord\<close> of the same word
  changes nothing.
\<close>

lemma addWord_twice_fresh:
  "words (step (AddToken w) (step (AddToken w) s)) = words (step (AddToken w) s)"
  by (simp add: addWord_words)

text \<open>
  C4. The claim: \<^verbatim>\<open>addWord(w)\<close> twice in succession leaves the registry as large as
  \<^verbatim>\<open>addWord(w)\<close> once, since the second call finds \<open>w\<close> present. The code for the
  text \<open>a a\<close> on the mounted page: the loop of \<^verbatim>\<open>handleFileUpload\<close> calls its
  \<^verbatim>\<open>addWord\<close> twice with \<open>a\<close>, both times with the empty registry that the callback
  captured, and the registry has two entries where one call leaves one. The same on the
  page whose context refuses floating-point textures.
\<close>

theorem repeated_add_in_upload:
  "words (step (Upload (FileText (utf16 ''a a''))) mounted) = [''a'', ''a'']
   \<and> words (addWord [] ''a'' (addWord [] ''a'' mounted)) = [''a'', ''a'']
   \<and> words (addWord [] ''a'' mounted) = [''a'']
   \<and> words (step (Upload (FileText (utf16 ''a a''))) mounted_webgl1) = [''a'', ''a'']
   \<and> words (step (AddToken ''a'') mounted_webgl1) = [''a'']"
  by (simp add: handleFileUpload_words addWord_words words_mounted words_mounted_webgl1
      match_small MAX_WORDS_def)

section \<open>An add while an upload waits\<close>

text \<open>The timers of one waiting upload run its loop.\<close>

lemma timers_run_loop:
  assumes "int j \<le> tot \<or> j = 0"
  shows "(turn_step (Timer 0) ^^ j)
           \<lparr>current = s, waiting = [\<lparr>task_words = ws, task_tokens = toks, task_total = tot, task_i = 0\<rparr>]\<rparr>
       = \<lparr>current = fold (upload_iteration ws toks tot) [0..<j] s,
          waiting = [\<lparr>task_words = ws, task_tokens = toks, task_total = tot, task_i = j\<rparr>]\<rparr>"
  using assms
proof (induction j)
  case 0
  then show ?case by simp
next
  case (Suc j)
  then have "int j < tot" by simp
  with Suc show ?case
    by (auto simp: resume_upload_def)
qed

lemma atomic_upload_is_a_schedule:
  "turns (Choose (FileText body) #
          replicate (Suc (nat (min (int (length (match_words (toLowerCase body))))
                                   (int MAX_WORDS - int (length (words s)))))) (Timer 0))
     \<lparr>current = s, waiting = []\<rparr>
   = \<lparr>current = step (Upload (FileText body)) s, waiting = []\<rparr>"
proof -
  define toks where "toks = match_words (toLowerCase body)"
  define tot where "tot = min (int (length toks)) (int MAX_WORDS - int (length (words s)))"
  define s1 where "s1 = s\<lparr>isProcessing := True, progress := 0\<rparr>"
  define s2 where "s2 = fold (upload_iteration (words s) toks tot) [0..<nat tot] s1"
  define t where "t = (\<lambda>i. \<lparr>task_words = words s, task_tokens = toks, task_total = tot, task_i = i\<rparr>)"
  have start: "turn_step (Choose (FileText body)) \<lparr>current = s, waiting = []\<rparr>
      = \<lparr>current = s1, waiting = [t 0]\<rparr>"
    by (simp add: start_upload_def Let_def toks_def tot_def s1_def t_def)
  have loop: "(turn_step (Timer 0) ^^ nat tot) \<lparr>current = s1, waiting = [t 0]\<rparr>
      = \<lparr>current = s2, waiting = [t (nat tot)]\<rparr>"
    unfolding t_def s2_def by (rule timers_run_loop) auto
  have last: "turn_step (Timer 0) \<lparr>current = s2, waiting = [t (nat tot)]\<rparr>
      = \<lparr>current = s2\<lparr>isProcessing := False, error := None\<rparr>, waiting = []\<rparr>"
    by (simp add: resume_upload_def t_def)
  have atomic: "step (Upload (FileText body)) s = s2\<lparr>isProcessing := False, error := None\<rparr>"
    by (simp add: handleFileUpload_def Let_def toks_def tot_def s1_def s2_def)
  have "turns (Choose (FileText body) # replicate (Suc (nat tot)) (Timer 0))
          \<lparr>current = s, waiting = []\<rparr>
      = turn_step (Timer 0) ((turn_step (Timer 0) ^^ nat tot)
          (turn_step (Choose (FileText body)) \<lparr>current = s, waiting = []\<rparr>))"
    unfolding turns_def by (simp only: fold_simps fold_replicate funpow.simps o_apply)
  also have "\<dots> = \<lparr>current = step (Upload (FileText body)) s, waiting = []\<rparr>"
    by (simp only: start loop last atomic)
  finally show ?thesis
    by (simp only: tot_def toks_def)
qed

lemma overlapping_page:
  assumes "j \<le> MAX_WORDS" and "words s = []"
  shows "words (current (turns (Choose (FileText (utf16 (numbered_text MAX_WORDS)))
            # Click (FormAdd ''b'') # replicate j (Timer 0)) \<lparr>current = s, waiting = []\<rparr>))
         = ''b'' # map numbered_word [0..<j]"
proof -
  let ?toks = "map numbered_word [0..<MAX_WORDS]"
  let ?s1 = "(step (FormAdd ''b'') (s\<lparr>isProcessing := True, progress := 0\<rparr>))"
  have start: "turns [Choose (FileText (utf16 (numbered_text MAX_WORDS))), Click (FormAdd ''b'')]
      \<lparr>current = s, waiting = []\<rparr>
    = \<lparr>current = ?s1,
       waiting = [\<lparr>task_words = [], task_tokens = ?toks, task_total = int MAX_WORDS, task_i = 0\<rparr>]\<rparr>"
    by (simp add: turns_def start_upload_def Let_def match_words_numbered_text assms(2)
        del: step.simps)
  have w1: "words ?s1 = [''b'']"
    by (simp add: handleAddWord_def addWord_words assms(2) MAX_WORDS_def)
  have "turns (Choose (FileText (utf16 (numbered_text MAX_WORDS))) # Click (FormAdd ''b'')
            # replicate j (Timer 0)) \<lparr>current = s, waiting = []\<rparr>
      = (turn_step (Timer 0) ^^ j) \<lparr>current = ?s1,
       waiting = [\<lparr>task_words = [], task_tokens = ?toks, task_total = int MAX_WORDS, task_i = 0\<rparr>]\<rparr>"
    using start by (simp add: turns_def fold_replicate del: step.simps turn_step.simps)
  also have "\<dots> = \<lparr>current = fold (upload_iteration [] ?toks (int MAX_WORDS)) [0..<j] ?s1,
          waiting = [\<lparr>task_words = [], task_tokens = ?toks, task_total = int MAX_WORDS, task_i = j\<rparr>]\<rparr>"
    using assms(1) by (intro timers_run_loop) simp
  finally show ?thesis
    using assms(1) by (simp add: upload_loop_words w1 take_map MAX_WORDS_def del: step.simps)
qed

text \<open>
  C3. The claim: whatever is added and uploaded, starting from the empty registry, the
  registry never has more than \<open>MAX_WORDS\<close> entries. The code, on the mounted page with
  its empty registry: a file with \<open>MAX_WORDS\<close> different tokens is chosen, the word \<open>b\<close>
  is added through the form while the upload waits, and the timers of the upload fire
  \<open>MAX_WORDS\<close> times. The loop tests the registry and the length that its callback
  captured when the file was chosen, so every token is appended after \<open>b\<close>: the
  registry ends with \<open>MAX_WORDS + 1\<close> entries. The same on the page whose context
  refuses floating-point textures.
\<close>

theorem overlapping_add_exceeds_capacity:
  "words (current \<lparr>current = mounted, waiting = []\<rparr>) = []
   \<and> words (current (turns (Choose (FileText (utf16 (numbered_text MAX_WORDS)))
            # Click (FormAdd ''b'') # replicate MAX_WORDS (Timer 0))
            \<lparr>current = mounted, waiting = []\<rparr>))
       = ''b'' # map numbered_word [0..<MAX_WORDS]
   \<and> length (words (current (turns (Choose (FileText (utf16 (numbered_text MAX_WORDS)))
            # Click (FormAdd ''b'') # replicate MAX_WORDS (Timer 0))
            \<lparr>current = mounted, waiting = []\<rparr>))) = MAX_WORDS + 1
   \<and> words mounted_webgl1 = []
   \<and> length (words (current (turns (Choose (FileText (utf16 (numbered_text MAX_WORDS)))
            # Click (FormAdd ''b'') # replicate MAX_WORDS (Timer 0))
            \<lparr>current = mounted_webgl1, waiting = []\<rparr>))) = MAX_WORDS + 1"
  by (simp add: overlapping_page words_mounted words_mounted_webgl1)

section \<open>What the registry holds\<close>

text \<open>
  The registry only grows at its end, under whole operations and under operations that
  overlap: what it held stays a prefix of what it holds, so every token keeps its index.
\<close>

lemma turn_step_prefix: "prefix (words (current p)) (words (current (turn_step t p)))"
proof (cases t)
  case (Click e)
  then show ?thesis by (simp add: step_prefix del: step.simps)
next
  case (Choose f)
  then show ?thesis
    by (cases f) (simp_all add: start_upload_def Let_def)
next
  case (Timer k)
  then show ?thesis
    by (simp add: resume_upload_def upload_iteration_words)
qed

lemma turns_prefix: "prefix (words (current p)) (words (current (turns ts p)))"
proof -
  have "prefix (words (current p)) (words (current (fold turn_step ts p)))"
  proof (induction ts arbitrary: p)
    case Nil
    then show ?case by simp
  next
    case (Cons t ts)
    from turn_step_prefix [of p t] Cons [of "turn_step t p"] show ?case
      by (simp del: turn_step.simps)
  qed
  then show ?thesis by (simp add: turns_def)
qed

lemma run_keeps_index: "i < length (words s) \<Longrightarrow> words (run evs s) ! i = words s ! i"
  using run_prefix [of s evs] by (auto simp: prefix_def nth_append)

text \<open>What an upload appends is normalized.\<close>

lemma upload_appends_normalized:
  "list_all normalized (drop (length (words s)) (words (step (Upload f) s)))"
proof (cases f)
  case NoFile
  then show ?thesis by (simp add: handleFileUpload_def)
next
  case Unreadable
  then show ?thesis by (simp add: handleFileUpload_def)
next
  case (FileText body)
  with bulk_tokens_normalized [of body] show ?thesis
    by (auto simp: handleFileUpload_words list_all_iff dest: in_set_takeD)
qed

text \<open>
  The form appends the typed word as it is, when it is not empty, not yet in the
  registry, and the registry is below its capacity.
\<close>

lemma form_add_words:
  "words (step (FormAdd w) s) =
     (if w \<noteq> [] \<and> w \<notin> set (words s) \<and> length (words s) < MAX_WORDS
      then words s @ [w] else words s)"
  unfolding step_words by simp

lemma not_normalized_Hello: "\<not> normalized ''Hello''"
  by code_simp

lemma normalized_hello: "normalized ''hello''"
  by code_simp

text \<open>
  C8. The claim: every token in the registry is a normalized, lower-cased word and is
  there once, single adds through the form included. The code: \<^verbatim>\<open>handleFileUpload\<close>
  lower-cases the text before it takes the tokens, \<^verbatim>\<open>handleAddWord\<close> hands the typed
  word to \<^verbatim>\<open>addWord\<close> as it is. On the mounted page a file with the text \<open>Hello\<close>
  registers \<open>hello\<close>, the form with the same word registers \<open>Hello\<close>, and one after the
  other leaves the registry with both: a token that is not normalized, and the same word
  twice up to its case.
\<close>

theorem form_add_not_lower_cased:
  "words (step (Upload (FileText (utf16 ''Hello''))) mounted_webgl1) = [''hello'']
   \<and> words (step (FormAdd ''Hello'') mounted_webgl1) = [''Hello'']
   \<and> words (run [Upload (FileText (utf16 ''Hello'')), FormAdd ''Hello''] mounted_webgl1)
       = [''hello'', ''Hello'']
   \<and> match_words (toLowerCase (utf16 ''Hello'')) = [''hello'']
   \<and> normalized ''hello''
   \<and> \<not> normalized ''Hello''"
proof -
  have u: "words (step (Upload (FileText (utf16 ''Hello''))) mounted_webgl1) = [''hello'']"
    by (simp add: handleFileUpload_words words_mounted_webgl1 match_Hello MAX_WORDS_def)
  have f: "words (step (FormAdd ''Hello'') mounted_webgl1) = [''Hello'']"
    unfolding form_add_words by (simp add: words_mounted_webgl1 MAX_WORDS_def)
  have r: "run [Upload (FileText (utf16 ''Hello'')), FormAdd ''Hello''] mounted_webgl1
      = step (FormAdd ''Hello'') (step (Upload (FileText (utf16 ''Hello''))) mounted_webgl1)"
    by (simp add: run_def del: step.simps)
  have b: "words (run [Upload (FileText (utf16 ''Hello'')), FormAdd ''Hello''] mounted_webgl1)
       = [''hello'', ''Hello'']"
    unfolding r form_add_words u by (simp add: MAX_WORDS_def)
  show ?thesis
    by (intro conjI u f b match_Hello normalized_hello not_normalized_Hello)
qed

end
